theory Spec2Isabelle
  imports Main "HOL-Library.Word" "HOL-Library.Multiset"
begin

section \<open>The Bytescale file provider of medusa-plugin-bytescale\<close>

text \<open>
  A shallow embedding of \<^verbatim>\<open>src/providers/bytescale/service.ts\<close>. The class
  \<^verbatim>\<open>BytescaleFileProviderService\<close> becomes a record, each method a function
  that takes the Bytescale SDK it calls, the instance (\<^verbatim>\<open>this\<close>), the request and
  the observable world, and returns the method's outcome with the new world. A
  \<^verbatim>\<open>throw\<close> or a rejected promise is the left injection of a sum.
\<close>

subsection \<open>JavaScript values\<close>

type_synonym byte = "8 word"

text \<open>A value of type \<^verbatim>\<open>string | undefined\<close>; \<open>None\<close> is \<^verbatim>\<open>undefined\<close>.\<close>

type_synonym js_string = "string option"

text \<open>
  A thrown value. The source reads \<^verbatim>\<open>error.message\<close> of whatever it catches, so
  thrown values are taken to be \<^verbatim>\<open>Error\<close> objects.
\<close>

record js_error =
  name :: string
  message :: string

text \<open>\<^verbatim>\<open>!v\<close> for a value of type \<^verbatim>\<open>string | undefined\<close>.\<close>

definition falsy :: "js_string \<Rightarrow> bool" where
  "falsy v = (case v of None \<Rightarrow> True | Some s \<Rightarrow> s = [])"

text \<open>\<^verbatim>\<open>v || d\<close> for \<^verbatim>\<open>v\<close> of type \<^verbatim>\<open>string | undefined\<close> and a string \<^verbatim>\<open>d\<close>.\<close>

definition js_or :: "js_string \<Rightarrow> string \<Rightarrow> string" where
  "js_or v d = (case v of None \<Rightarrow> d | Some s \<Rightarrow> if s = [] then d else s)"

text \<open>
  \<^verbatim>\<open>String.prototype.startsWith\<close>, \<^verbatim>\<open>endsWith\<close> and \<^verbatim>\<open>slice\<close>
  (\<open>slice_str\<close>: negative indices count from the end, both are clamped).
\<close>

definition startsWith :: "string \<Rightarrow> string \<Rightarrow> bool" where
  "startsWith s p = (take (length p) s = p)"

definition endsWith :: "string \<Rightarrow> string \<Rightarrow> bool" where
  "endsWith s p = (length p \<le> length s \<and> drop (length s - length p) s = p)"

definition slice_str :: "string \<Rightarrow> int \<Rightarrow> int \<Rightarrow> string" where
  "slice_str s start fin =
     (let len = int (length s);
          from = (if start < 0 then max (len + start) 0 else min start len);
          to = (if fin < 0 then max (len + fin) 0 else min fin len)
      in take (nat (to - from)) (drop (nat from) s))"

subsection \<open>The types of the host framework\<close>

datatype MedusaErrorType =
  DB_ERROR | DUPLICATE_ERROR | INVALID_ARGUMENT | INVALID_DATA | UNAUTHORIZED
  | NOT_FOUND | NOT_ALLOWED | UNEXPECTED_STATE | CONFLICT

datatype MedusaError = MedusaError MedusaErrorType string

text \<open>
  The payload of an upload: the framework types it as a string, the SDK takes a string,
  a \<^verbatim>\<open>Buffer\<close> or a stream (a stream is an object, known by its identity).
\<close>

datatype js_data = StringData string | BufferData "byte list" | StreamData nat

text \<open>
  \<^verbatim>\<open>ProviderUploadStreamDTO\<close> and \<^verbatim>\<open>ProviderUploadFileDTO\<close>, which adds the
  content. Requests may carry further fields (the record's extension).
\<close>

record ProviderUploadStreamDTO =
  filename :: string
  mimeType :: string

record ProviderUploadFileDTO = ProviderUploadStreamDTO +
  content :: js_data

text \<open>\<^verbatim>\<open>ProviderGetFileDTO\<close> and \<^verbatim>\<open>ProviderDeleteFileDTO\<close> have the same shape.\<close>

record ProviderGetFileDTO =
  fileKey :: string

type_synonym ProviderDeleteFileDTO = ProviderGetFileDTO

record ProviderFileResultDTO =
  url :: string
  key :: string

text \<open>\<^verbatim>\<open>ProviderDeleteFileDTO | ProviderDeleteFileDTO[]\<close>, the argument of \<^verbatim>\<open>delete\<close>.\<close>

datatype 'a delete_files =
  OneFile "'a ProviderGetFileDTO_scheme"
  | FileArray "'a ProviderGetFileDTO_scheme list"

subsection \<open>The Bytescale SDK and node-fetch\<close>

text \<open>
  The argument of \<^verbatim>\<open>UploadManager.upload\<close> (\<^verbatim>\<open>path.folderPath\<close> flattened) and
  its result; the argument \<^verbatim>\<open>{accountId, filePath}\<close> shared by
  \<^verbatim>\<open>FileApi.deleteFile\<close>, \<^verbatim>\<open>FileApi.downloadFile\<close> and \<^verbatim>\<open>UrlBuilder.url\<close>.
\<close>

record UploadParams =
  data :: js_data
  mime :: string
  originalFileName :: string
  folderPath :: string

record UploadResult =
  fileUrl :: string
  filePath :: string

record FileParams =
  fp_accountId :: js_string
  fp_filePath :: string

text \<open>
  A readable byte stream: the chunks it emits, then its end or an error. The node-fetch
  response holds the body stream; the SDK's response holds the node-fetch response.
\<close>

record readable =
  chunks :: "byte list list"
  failure :: "js_error option"

record nf_response =
  body :: readable
  response_url :: string

record FileResponse =
  raw :: nf_response

text \<open>
  \<^verbatim>\<open>Response.buffer()\<close> of node-fetch v2 reads the body stream to its end and
  returns the chunks concatenated. When the stream fails with \<^verbatim>\<open>err\<close> it rejects
  with \<^verbatim>\<open>err\<close> itself if that is an \<^verbatim>\<open>AbortError\<close>, and otherwise with a new
  \<^verbatim>\<open>FetchError\<close> whose message names the response's URL and \<^verbatim>\<open>err.message\<close>.
\<close>

definition buffer :: "nf_response \<Rightarrow> js_error + byte list" where
  "buffer r = (case failure (body r) of
                 Some err \<Rightarrow>
                   if name err = ''AbortError'' then Inl err
                   else Inl \<lparr>name = ''FetchError'',
                             message = ''Invalid response body while trying to fetch ''
                                       @ response_url r @ '': '' @ message err\<rparr>
               | None \<Rightarrow> Inr (concat (chunks (body r))))"

datatype remote_call =
  UploadCall UploadParams
  | DeleteFileCall FileParams
  | DownloadFileCall FileParams

text \<open>
  The SDK as the service sees it. A remote operation answers from the calls issued so
  far and its argument, so two equal requests may fare differently.
  \<open>deleteFile_settles\<close> is the time at which the promise of a \<^verbatim>\<open>deleteFile\<close> call
  settles. \<^verbatim>\<open>UrlBuilder.url\<close> is a static function of its argument.
\<close>

record bytescale_sdk =
  UploadManager_upload :: "remote_call list \<Rightarrow> UploadParams \<Rightarrow> js_error + UploadResult"
  FileApi_deleteFile :: "remote_call list \<Rightarrow> FileParams \<Rightarrow> js_error + unit"
  deleteFile_settles :: "remote_call list \<Rightarrow> FileParams \<Rightarrow> nat"
  FileApi_downloadFile :: "remote_call list \<Rightarrow> FileParams \<Rightarrow> js_error + FileResponse"
  UrlBuilder_url :: "FileParams \<Rightarrow> js_error + string"

text \<open>The client objects the constructor creates, each with the \<^verbatim>\<open>apiKey\<close> given.\<close>

datatype sdk_object = UploadManager js_string | FileApi js_string

text \<open>
  The constructors of the SDK's two client classes. Each checks the configuration it
  is given and may throw (the SDK rejects a malformed API key when a client is
  constructed): the field is the error thrown for an \<^verbatim>\<open>apiKey\<close>, if any.
\<close>

record sdk_classes =
  new_UploadManager :: "js_string \<Rightarrow> js_error option"
  new_FileApi :: "js_string \<Rightarrow> js_error option"

subsection \<open>The observable world\<close>

datatype log_entry = LogError string | LogWarn string

text \<open>
  The remote calls issued, the lines written to \<^verbatim>\<open>logger_\<close>, the SDK clients
  constructed and the number of \<^verbatim>\<open>PassThrough\<close> streams created, each in order.
\<close>

record world =
  calls :: "remote_call list"
  logs :: "log_entry list"
  constructed :: "sdk_object list"
  passthroughs :: nat

subsection \<open>The service\<close>

record BytescaleOptions =
  apiKey :: js_string
  accountId :: js_string
  prefix :: js_string

text \<open>
  The instance: \<^verbatim>\<open>this.options_\<close>, \<^verbatim>\<open>this.uploadManager_\<close> and
  \<^verbatim>\<open>this.fileApi_\<close> (\<^verbatim>\<open>this.logger_\<close> writes to the world's log).
\<close>

record BytescaleFileProviderService =
  this_options :: BytescaleOptions
  this_uploadManager :: sdk_object
  this_fileApi :: sdk_object

definition validateOptions :: "BytescaleOptions \<Rightarrow> MedusaError + unit" where
  "validateOptions options =
     (if falsy (apiKey options) then
        Inl (MedusaError INVALID_DATA
               (''Bytescale provider requires '' @ [CHR 0x27] @ ''apiKey'' @ [CHR 0x27] @ '' option.''))
      else if falsy (accountId options) then
        Inl (MedusaError INVALID_DATA
               (''Bytescale provider requires '' @ [CHR 0x27] @ ''accountId'' @ [CHR 0x27] @ '' option.''))
      else Inr ())"

text \<open>
  What the constructor throws: the \<^verbatim>\<open>MedusaError\<close> of \<^verbatim>\<open>validateOptions\<close>, or
  whatever \<^verbatim>\<open>new Bytescale.UploadManager\<close> or \<^verbatim>\<open>new Bytescale.FileApi\<close> throws.
  Validation comes first; the upload manager is constructed before the file API.
\<close>

datatype constructor_error = ValidationError MedusaError | SdkError js_error

definition constructor ::
  "sdk_classes \<Rightarrow> BytescaleOptions \<Rightarrow> world
     \<Rightarrow> (constructor_error + BytescaleFileProviderService) \<times> world" where
  "constructor classes options w =
     (case validateOptions options of
        Inl e \<Rightarrow> (Inl (ValidationError e), w)
      | Inr _ \<Rightarrow>
          (case new_UploadManager classes (apiKey options) of
             Some e \<Rightarrow> (Inl (SdkError e), w)
           | None \<Rightarrow>
               (let w1 = w\<lparr>constructed := constructed w @ [UploadManager (apiKey options)]\<rparr>
                in case new_FileApi classes (apiKey options) of
                     Some e \<Rightarrow> (Inl (SdkError e), w1)
                   | None \<Rightarrow>
                       (Inr \<lparr>this_options = options,
                             this_uploadManager = UploadManager (apiKey options),
                             this_fileApi = FileApi (apiKey options)\<rparr>,
                        w1\<lparr>constructed := constructed w1 @ [FileApi (apiKey options)]\<rparr>))))"

definition getUploadPath :: "BytescaleFileProviderService \<Rightarrow> string" where
  "getUploadPath this =
     (let folderPath = js_or (prefix (this_options this)) ''/uploads'';
          folderPath = (if \<not> startsWith folderPath ''/'' then ''/'' @ folderPath
                        else folderPath);
          folderPath = (if length folderPath > 1 \<and> endsWith folderPath ''/''
                        then slice_str folderPath 0 (-1) else folderPath)
      in folderPath)"

text \<open>
  \<^verbatim>\<open>upload\<close>: one call of \<^verbatim>\<open>uploadManager_.upload\<close>, awaited inside
  \<^verbatim>\<open>try\<close>; the \<^verbatim>\<open>catch\<close> logs and throws what it caught.
\<close>

definition upload ::
  "bytescale_sdk \<Rightarrow> BytescaleFileProviderService \<Rightarrow> 'a ProviderUploadFileDTO_scheme \<Rightarrow> world
     \<Rightarrow> (js_error + ProviderFileResultDTO) \<times> world" where
  "upload sdk this file w =
     (let params = \<lparr>data = content file, mime = mimeType file,
                     originalFileName = filename file, folderPath = getUploadPath this\<rparr>;
          w1 = w\<lparr>calls := calls w @ [UploadCall params]\<rparr>
      in case UploadManager_upload sdk (calls w) params of
           Inr result \<Rightarrow> (Inr \<lparr>url = fileUrl result, key = filePath result\<rparr>, w1)
         | Inl error \<Rightarrow>
             (Inl error,
              w1\<lparr>logs := logs w1 @
                    [LogError (''Bytescale upload failed for '' @ filename file @ '': ''
                               @ message error)]\<rparr>))"

text \<open>
  \<^verbatim>\<open>delete\<close>. \<^verbatim>\<open>fileArray.map\<close> runs each \<^verbatim>\<open>async\<close> callback up to its
  \<^verbatim>\<open>await\<close>, so the \<^verbatim>\<open>deleteFile\<close> calls are issued in the order of the array
  (\<open>issue_deletes\<close>, which keeps for each entry the time at which its promise settles
  and how). The callbacks then resume in the order in which the promises settle, those
  that settle together in the order of the array; a callback whose call failed writes
  its warning (\<open>settle_delete\<close>). \<^verbatim>\<open>Promise.all\<close> resolves when all have resumed.
\<close>

fun issue_deletes ::
  "bytescale_sdk \<Rightarrow> BytescaleFileProviderService \<Rightarrow> 'a ProviderGetFileDTO_scheme list
     \<Rightarrow> remote_call list
     \<Rightarrow> ('a ProviderGetFileDTO_scheme \<times> nat \<times> (js_error + unit)) list \<times> remote_call list" where
  "issue_deletes sdk this [] cs = ([], cs)"
| "issue_deletes sdk this (file # rest) cs =
     (let p = \<lparr>fp_accountId = accountId (this_options this), fp_filePath = fileKey file\<rparr>;
          pending = (file, deleteFile_settles sdk cs p, FileApi_deleteFile sdk cs p);
          (ps, cs') = issue_deletes sdk this rest (cs @ [DeleteFileCall p])
      in (pending # ps, cs'))"

fun settle_delete ::
  "'a ProviderGetFileDTO_scheme \<times> nat \<times> (js_error + unit) \<Rightarrow> log_entry list" where
  "settle_delete (file, t, Inr _) = []"
| "settle_delete (file, t, Inl error) =
     [LogWarn (''Bytescale delete failed for '' @ fileKey file @ '': '' @ message error)]"

definition delete ::
  "bytescale_sdk \<Rightarrow> BytescaleFileProviderService \<Rightarrow> 'a delete_files \<Rightarrow> world
     \<Rightarrow> (js_error + unit) \<times> world" where
  "delete sdk this files w =
     (let fileArray = (case files of FileArray fs \<Rightarrow> fs | OneFile f \<Rightarrow> [f]);
          (pending, cs) = issue_deletes sdk this fileArray (calls w);
          settled = sort_key (\<lambda>(file, t, r). t) pending
      in (Inr (), w\<lparr>calls := cs, logs := logs w @ concat (map settle_delete settled)\<rparr>))"

text \<open>\<^verbatim>\<open>getPresignedDownloadUrl\<close>: \<^verbatim>\<open>UrlBuilder.url\<close> inside \<^verbatim>\<open>try\<close>.\<close>

definition getPresignedDownloadUrl ::
  "bytescale_sdk \<Rightarrow> BytescaleFileProviderService \<Rightarrow> 'a ProviderGetFileDTO_scheme \<Rightarrow> world
     \<Rightarrow> (js_error + string) \<times> world" where
  "getPresignedDownloadUrl sdk this fileData w =
     (case UrlBuilder_url sdk \<lparr>fp_accountId = accountId (this_options this),
                               fp_filePath = fileKey fileData\<rparr> of
        Inr u \<Rightarrow> (Inr u, w)
      | Inl error \<Rightarrow>
          (Inl error,
           w\<lparr>logs := logs w @ [LogError (''Bytescale URL gen failed: '' @ message error)]\<rparr>))"



text \<open>
  \<^verbatim>\<open>getDownloadStream\<close> returns \<^verbatim>\<open>response.raw.body\<close>; \<^verbatim>\<open>getAsBuffer\<close> awaits
  \<^verbatim>\<open>response.raw.buffer()\<close> inside the same \<^verbatim>\<open>try\<close> as the download.
\<close>

definition getDownloadStream ::
  "bytescale_sdk \<Rightarrow> BytescaleFileProviderService \<Rightarrow> 'a ProviderGetFileDTO_scheme \<Rightarrow> world
     \<Rightarrow> (js_error + readable) \<times> world" where
  "getDownloadStream sdk this fileData w =
     (let p = \<lparr>fp_accountId = accountId (this_options this), fp_filePath = fileKey fileData\<rparr>;
          w1 = w\<lparr>calls := calls w @ [DownloadFileCall p]\<rparr>
      in case FileApi_downloadFile sdk (calls w) p of
           Inr response \<Rightarrow> (Inr (body (raw response)), w1)
         | Inl error \<Rightarrow>
             (Inl error,
              w1\<lparr>logs := logs w1 @
                    [LogError (''Bytescale download stream failed: '' @ message error)]\<rparr>))"

definition getAsBuffer ::
  "bytescale_sdk \<Rightarrow> BytescaleFileProviderService \<Rightarrow> 'a ProviderGetFileDTO_scheme \<Rightarrow> world
     \<Rightarrow> (js_error + byte list) \<times> world" where
  "getAsBuffer sdk this fileData w =
     (let p = \<lparr>fp_accountId = accountId (this_options this), fp_filePath = fileKey fileData\<rparr>;
          w1 = w\<lparr>calls := calls w @ [DownloadFileCall p]\<rparr>;
          failed = (\<lambda>error.
            (Inl error,
             w1\<lparr>logs := logs w1 @
                   [LogError (''Bytescale buffer download failed: '' @ message error)]\<rparr>))
      in case FileApi_downloadFile sdk (calls w) p of
           Inl error \<Rightarrow> failed error
         | Inr response \<Rightarrow>
             (case buffer (raw response) of
                Inl error \<Rightarrow> failed error
              | Inr b \<Rightarrow> (Inr b, w1)))"

subsection \<open>A mocked remote client\<close>

text \<open>
  Concrete fixtures on which the theorems below are run. \<open>mock_sdk\<close> names an upload
  after its folder and file name, deletes only below \<^verbatim>\<open>/media/\<close>, settles a
  deletion the sooner the shorter its path, and serves three bytes in two chunks.
  \<open>failing_sdk\<close> fails every operation; \<open>broken_body_sdk\<close> serves a body stream
  that fails after its first chunk.
\<close>

definition mock_url :: "FileParams \<Rightarrow> string" where
  "mock_url p = ''https://upcdn.io/'' @ js_or (fp_accountId p) ''undefined'' @ ''/raw'' @ fp_filePath p"

definition mock_sdk :: bytescale_sdk where
  "mock_sdk =
     \<lparr>UploadManager_upload = (\<lambda>cs p.
        Inr \<lparr>fileUrl = mock_url \<lparr>fp_accountId = Some ''acct'',
                                  fp_filePath = folderPath p @ ''/'' @ originalFileName p\<rparr>,
             filePath = folderPath p @ ''/'' @ originalFileName p\<rparr>),
      FileApi_deleteFile = (\<lambda>cs p.
        if startsWith (fp_filePath p) ''/media/'' then Inr ()
        else Inl \<lparr>name = ''BytescaleApiError'', message = ''not found''\<rparr>),
      deleteFile_settles = (\<lambda>cs p. length (fp_filePath p)),
      FileApi_downloadFile = (\<lambda>cs p.
        Inr \<lparr>raw = \<lparr>body = \<lparr>chunks = [[1, 2], [3]], failure = None\<rparr>,
                    response_url = mock_url p\<rparr>\<rparr>),
      UrlBuilder_url = (\<lambda>p. Inr (mock_url p))\<rparr>"

definition mock_failure :: js_error where
  "mock_failure = \<lparr>name = ''BytescaleApiError'', message = ''quota exceeded''\<rparr>"

definition failing_sdk :: bytescale_sdk where
  "failing_sdk =
     \<lparr>UploadManager_upload = (\<lambda>cs p. Inl mock_failure),
      FileApi_deleteFile = (\<lambda>cs p. Inl mock_failure),
      deleteFile_settles = (\<lambda>cs p. 0),
      FileApi_downloadFile = (\<lambda>cs p. Inl mock_failure),
      UrlBuilder_url = (\<lambda>p. Inl mock_failure)\<rparr>"

definition broken_body_sdk :: bytescale_sdk where
  "broken_body_sdk =
     mock_sdk\<lparr>FileApi_downloadFile := (\<lambda>cs p.
        Inr \<lparr>raw = \<lparr>body = \<lparr>chunks = [[1, 2]], failure = Some mock_failure\<rparr>,
                    response_url = mock_url p\<rparr>\<rparr>)\<rparr>"

text \<open>
  Client classes that reject, as the SDK does, a key that does not begin with
  \<^verbatim>\<open>public_\<close> or \<^verbatim>\<open>secret_\<close> followed by at least seven characters; and classes
  whose file API alone rejects every key.
\<close>

definition mock_key_check :: "js_string \<Rightarrow> js_error option" where
  "mock_key_check k =
     (case k of
        None \<Rightarrow> Some \<lparr>name = ''Error'', message = ''Invalid Bytescale API key.''\<rparr>
      | Some s \<Rightarrow>
          if (startsWith s ''public_'' \<or> startsWith s ''secret_'') \<and> 14 \<le> length s
          then None
          else Some \<lparr>name = ''Error'', message = ''Invalid Bytescale API key.''\<rparr>)"

definition mock_classes :: sdk_classes where
  "mock_classes = \<lparr>new_UploadManager = mock_key_check, new_FileApi = mock_key_check\<rparr>"

definition broken_fileApi_classes :: sdk_classes where
  "broken_fileApi_classes = mock_classes\<lparr>new_FileApi := (\<lambda>k. Some mock_failure)\<rparr>"

definition mock_options :: BytescaleOptions where
  "mock_options = \<lparr>apiKey = Some ''secret_12a1yekGHJKLMN'', accountId = Some ''acct'',
                    prefix = Some ''media''\<rparr>"

definition mock_service :: BytescaleFileProviderService where
  "mock_service = \<lparr>this_options = mock_options,
                    this_uploadManager = UploadManager (Some ''secret_12a1yekGHJKLMN''),
                    this_fileApi = FileApi (Some ''secret_12a1yekGHJKLMN'')\<rparr>"

definition new_world :: world where
  "new_world = \<lparr>calls = [], logs = [], constructed = [], passthroughs = 0\<rparr>"

lemmas mock_defs =
  mock_url_def mock_sdk_def mock_failure_def failing_sdk_def broken_body_sdk_def
  mock_key_check_def mock_classes_def broken_fileApi_classes_def
  mock_options_def mock_service_def new_world_def

section \<open>Folder path normalization\<close>

lemma slice_str_butlast: "slice_str s 0 (-1) = butlast s"
  by (cases s rule: rev_cases) (simp_all add: slice_str_def Let_def butlast_conv_take)

text \<open>Whatever the prefix, the folder path starts with a slash.\<close>

lemma getUploadPath_leading_slash: "startsWith (getUploadPath this) ''/''"
proof -
  define p where "p = js_or (prefix (this_options this)) ''/uploads''"
  define q where "q = (if \<not> startsWith p ''/'' then ''/'' @ p else p)"
  have "p \<noteq> []"
    by (simp add: p_def js_or_def split: option.splits)
  then have "\<exists>r. q = CHR ''/'' # r"
    by (cases p) (auto simp: q_def startsWith_def)
  then obtain r where r: "q = CHR ''/'' # r"
    by blast
  have "getUploadPath this =
          (if length q > 1 \<and> endsWith q ''/'' then slice_str q 0 (-1) else q)"
    by (simp add: getUploadPath_def Let_def p_def q_def)
  then show ?thesis
    by (cases r) (simp_all add: r slice_str_butlast startsWith_def)
qed

text \<open>
  Claim C9. The folder path for an absent prefix is \<^verbatim>\<open>/uploads\<close>, for \<^verbatim>\<open>media\<close>
  and for \<^verbatim>\<open>/media/\<close> it is \<^verbatim>\<open>/media\<close>, for \<^verbatim>\<open>/\<close> it is \<^verbatim>\<open>/\<close>, and for the
  empty string, which is falsy, it is the default \<^verbatim>\<open>/uploads\<close>.
\<close>

theorem getUploadPath_examples:
  "getUploadPath \<lparr>this_options = \<lparr>apiKey = k, accountId = a, prefix = None\<rparr>,
                   this_uploadManager = um, this_fileApi = fa\<rparr> = ''/uploads''
   \<and> getUploadPath \<lparr>this_options = \<lparr>apiKey = k, accountId = a, prefix = Some ''media''\<rparr>,
                     this_uploadManager = um, this_fileApi = fa\<rparr> = ''/media''
   \<and> getUploadPath \<lparr>this_options = \<lparr>apiKey = k, accountId = a, prefix = Some ''/media/''\<rparr>,
                     this_uploadManager = um, this_fileApi = fa\<rparr> = ''/media''
   \<and> getUploadPath \<lparr>this_options = \<lparr>apiKey = k, accountId = a, prefix = Some ''/''\<rparr>,
                     this_uploadManager = um, this_fileApi = fa\<rparr> = ''/''
   \<and> getUploadPath \<lparr>this_options = \<lparr>apiKey = k, accountId = a, prefix = Some ''''\<rparr>,
                     this_uploadManager = um, this_fileApi = fa\<rparr> = ''/uploads''"
  by (simp add: getUploadPath_def js_or_def startsWith_def endsWith_def slice_str_def)

text \<open>
  Claim C3 says that the folder path never ends with a slash unless it is \<^verbatim>\<open>/\<close>, as
  the comment above \<^verbatim>\<open>getUploadPath\<close> does (leading slash, no trailing slash). The
  function removes one trailing slash only: for the prefix \<^verbatim>\<open>media//\<close> the folder
  path is \<^verbatim>\<open>/media/\<close>, which ends with a slash and is not \<^verbatim>\<open>/\<close>.
\<close>

theorem getUploadPath_keeps_trailing_slash:
  "getUploadPath \<lparr>this_options = \<lparr>apiKey = k, accountId = a, prefix = Some ''media//''\<rparr>,
                   this_uploadManager = um, this_fileApi = fa\<rparr> = ''/media/''
   \<and> endsWith (getUploadPath \<lparr>this_options = \<lparr>apiKey = k, accountId = a,
                                                prefix = Some ''media//''\<rparr>,
                               this_uploadManager = um, this_fileApi = fa\<rparr>) ''/''
   \<and> getUploadPath \<lparr>this_options = \<lparr>apiKey = k, accountId = a, prefix = Some ''media//''\<rparr>,
                     this_uploadManager = um, this_fileApi = fa\<rparr> \<noteq> ''/''"
  by (simp add: getUploadPath_def js_or_def startsWith_def endsWith_def slice_str_def)

section \<open>Construction\<close>

text \<open>
  Claim C4. When \<^verbatim>\<open>apiKey\<close> or \<^verbatim>\<open>accountId\<close> is missing or empty, the constructor
  throws a \<^verbatim>\<open>MedusaError\<close> of type \<^verbatim>\<open>INVALID_DATA\<close> and leaves the world as it
  was, whatever the SDK's classes would do: no client constructed, no remote call.
  When both are non-empty strings, validation passes and construction proceeds to the
  SDK's client constructors, called with the \<^verbatim>\<open>apiKey\<close>: when both accept it the
  constructor returns the instance holding the options and the two clients, and when
  one of them throws, the constructor throws that error, which is not a validation
  error. No remote call is made either way.
\<close>

theorem constructor_validation:
  "(apiKey options = None \<or> apiKey options = Some [] \<or>
    accountId options = None \<or> accountId options = Some []
      \<longrightarrow> (\<exists>msg. constructor classes options w =
                   (Inl (ValidationError (MedusaError INVALID_DATA msg)), w)))
   \<and> ((\<exists>k a. apiKey options = Some k \<and> k \<noteq> [] \<and> accountId options = Some a \<and> a \<noteq> [])
      \<longrightarrow> validateOptions options = Inr ()
          \<and> (\<forall>m. fst (constructor classes options w) \<noteq> Inl (ValidationError m))
          \<and> calls (snd (constructor classes options w)) = calls w
          \<and> (new_UploadManager classes (apiKey options) = None
               \<and> new_FileApi classes (apiKey options) = None
             \<longrightarrow> constructor classes options w =
                   (Inr \<lparr>this_options = options,
                         this_uploadManager = UploadManager (apiKey options),
                         this_fileApi = FileApi (apiKey options)\<rparr>,
                    w\<lparr>constructed := constructed w @
                         [UploadManager (apiKey options), FileApi (apiKey options)]\<rparr>))
          \<and> (\<forall>e. new_UploadManager classes (apiKey options) = Some e
             \<longrightarrow> constructor classes options w = (Inl (SdkError e), w))
          \<and> (\<forall>e. new_UploadManager classes (apiKey options) = None
                   \<and> new_FileApi classes (apiKey options) = Some e
             \<longrightarrow> constructor classes options w =
                   (Inl (SdkError e),
                    w\<lparr>constructed := constructed w @ [UploadManager (apiKey options)]\<rparr>)))"
proof -
  have invalid: "\<exists>msg. constructor classes options w =
                   (Inl (ValidationError (MedusaError INVALID_DATA msg)), w)"
    if "apiKey options = None \<or> apiKey options = Some [] \<or>
        accountId options = None \<or> accountId options = Some []"
    using that
    by (auto simp: constructor_def validateOptions_def falsy_def split: option.splits)
  have valid: "validateOptions options = Inr ()"
    if "\<exists>k a. apiKey options = Some k \<and> k \<noteq> [] \<and> accountId options = Some a \<and> a \<noteq> []"
    using that by (auto simp: validateOptions_def falsy_def)
  show ?thesis
    using invalid valid
    by (auto simp: constructor_def Let_def split: option.splits)
qed

text \<open>
  Runs: an empty \<^verbatim>\<open>accountId\<close>; a missing \<^verbatim>\<open>apiKey\<close>; a well-formed key, accepted
  by both classes; a non-empty key that the SDK rejects; and a key that the upload
  manager accepts and the file API rejects.
\<close>

theorem constructor_validation_witness:
  "constructor mock_classes
     \<lparr>apiKey = Some ''secret_12a1yekGHJKLMN'', accountId = Some '''', prefix = None\<rparr>
     new_world =
     (Inl (ValidationError (MedusaError INVALID_DATA
             (''Bytescale provider requires '' @ [CHR 0x27] @ ''accountId'' @ [CHR 0x27]
              @ '' option.''))), new_world)
   \<and> constructor mock_classes \<lparr>apiKey = None, accountId = Some ''acct'', prefix = None\<rparr>
       new_world =
     (Inl (ValidationError (MedusaError INVALID_DATA
             (''Bytescale provider requires '' @ [CHR 0x27] @ ''apiKey'' @ [CHR 0x27]
              @ '' option.''))), new_world)
   \<and> validateOptions mock_options = Inr ()
   \<and> constructor mock_classes mock_options new_world =
     (Inr mock_service,
      new_world\<lparr>constructed := [UploadManager (Some ''secret_12a1yekGHJKLMN''),
                                FileApi (Some ''secret_12a1yekGHJKLMN'')]\<rparr>)
   \<and> validateOptions \<lparr>apiKey = Some ''secret_k'', accountId = Some ''acct'', prefix = None\<rparr> =
       Inr ()
   \<and> constructor mock_classes
       \<lparr>apiKey = Some ''secret_k'', accountId = Some ''acct'', prefix = None\<rparr> new_world =
     (Inl (SdkError \<lparr>name = ''Error'', message = ''Invalid Bytescale API key.''\<rparr>), new_world)
   \<and> constructor broken_fileApi_classes mock_options new_world =
     (Inl (SdkError mock_failure),
      new_world\<lparr>constructed := [UploadManager (Some ''secret_12a1yekGHJKLMN'')]\<rparr>)"
  using constructor_validation
          [where classes = mock_classes and w = new_world and options =
             "\<lparr>apiKey = Some ''secret_12a1yekGHJKLMN'', accountId = Some '''', prefix = None\<rparr>"]
        constructor_validation
          [where classes = mock_classes and w = new_world and options =
             "\<lparr>apiKey = None, accountId = Some ''acct'', prefix = None\<rparr>"]
        constructor_validation
          [where classes = mock_classes and w = new_world and options = mock_options]
        constructor_validation
          [where classes = mock_classes and w = new_world and options =
             "\<lparr>apiKey = Some ''secret_k'', accountId = Some ''acct'', prefix = None\<rparr>"]
        constructor_validation
          [where classes = broken_fileApi_classes and w = new_world and options = mock_options]
  by (simp add: constructor_def validateOptions_def falsy_def startsWith_def Let_def mock_defs)

section \<open>Upload\<close>

text \<open>
  Claim C5. \<^verbatim>\<open>upload\<close> issues one remote upload whose data, mime type and original
  file name are the request's content, mime type and file name, unchanged, and whose
  folder path is the normalized prefix; when the remote client answers that call with
  a file URL \<open>X\<close> and a file path \<open>Y\<close>, \<^verbatim>\<open>upload\<close> returns the URL \<open>X\<close> and the
  key \<open>Y\<close>.
\<close>

theorem upload_round_trip:
  assumes "UploadManager_upload sdk (calls w)
             \<lparr>data = content file, mime = mimeType file, originalFileName = filename file,
              folderPath = getUploadPath this\<rparr> = Inr \<lparr>fileUrl = X, filePath = Y\<rparr>"
  shows "upload sdk this file w =
           (Inr \<lparr>url = X, key = Y\<rparr>,
            w\<lparr>calls := calls w @
                 [UploadCall \<lparr>data = content file, mime = mimeType file,
                              originalFileName = filename file,
                              folderPath = getUploadPath this\<rparr>]\<rparr>)"
  using assms by (simp add: upload_def Let_def)

theorem upload_round_trip_witness:
  "UploadManager_upload mock_sdk (calls new_world)
     \<lparr>data = StringData ''hello'', mime = ''text/plain'', originalFileName = ''a.txt'',
      folderPath = ''/media''\<rparr> =
     Inr \<lparr>fileUrl = ''https://upcdn.io/acct/raw/media/a.txt'', filePath = ''/media/a.txt''\<rparr>
   \<and> upload mock_sdk mock_service
       \<lparr>filename = ''a.txt'', mimeType = ''text/plain'', content = StringData ''hello''\<rparr>
       new_world =
     (Inr \<lparr>url = ''https://upcdn.io/acct/raw/media/a.txt'', key = ''/media/a.txt''\<rparr>,
      new_world\<lparr>calls := [UploadCall \<lparr>data = StringData ''hello'', mime = ''text/plain'',
                                        originalFileName = ''a.txt'',
                                        folderPath = ''/media''\<rparr>]\<rparr>)"
proof -
  have path: "getUploadPath mock_service = ''/media''"
    by (simp add: getUploadPath_def js_or_def startsWith_def endsWith_def mock_defs)
  have answer: "UploadManager_upload mock_sdk (calls new_world)
     \<lparr>data = StringData ''hello'', mime = ''text/plain'', originalFileName = ''a.txt'',
      folderPath = ''/media''\<rparr> =
     Inr \<lparr>fileUrl = ''https://upcdn.io/acct/raw/media/a.txt'', filePath = ''/media/a.txt''\<rparr>"
    by (simp add: mock_defs js_or_def)
  show ?thesis
    using answer
      upload_round_trip [of mock_sdk new_world
        "\<lparr>filename = ''a.txt'', mimeType = ''text/plain'', content = StringData ''hello''\<rparr>"
        mock_service "''https://upcdn.io/acct/raw/media/a.txt''" "''/media/a.txt''"]
    by (simp add: path new_world_def)
qed



section \<open>Batch delete\<close>

lemma issue_deletes_calls:
  "snd (issue_deletes sdk this fs cs) =
     cs @ map (\<lambda>f. DeleteFileCall \<lparr>fp_accountId = accountId (this_options this),
                                       fp_filePath = fileKey f\<rparr>) fs"
  by (induction fs arbitrary: cs) (simp_all add: Let_def case_prod_beta)

text \<open>
  The entry at index \<open>i\<close> is answered from the calls issued before it: those already
  in the world and those of the entries before it in the array.
\<close>

lemma issue_deletes_pending:
  "fst (issue_deletes sdk this fs cs) =
     map (\<lambda>i. (fs ! i,
               deleteFile_settles sdk
                 (cs @ map (\<lambda>f. DeleteFileCall \<lparr>fp_accountId = accountId (this_options this),
                                                  fp_filePath = fileKey f\<rparr>) (take i fs))
                 \<lparr>fp_accountId = accountId (this_options this),
                  fp_filePath = fileKey (fs ! i)\<rparr>,
               FileApi_deleteFile sdk
                 (cs @ map (\<lambda>f. DeleteFileCall \<lparr>fp_accountId = accountId (this_options this),
                                                  fp_filePath = fileKey f\<rparr>) (take i fs))
                 \<lparr>fp_accountId = accountId (this_options this),
                  fp_filePath = fileKey (fs ! i)\<rparr>))
         [0..<length fs]"
proof (induction fs arbitrary: cs)
  case Nil
  then show ?case by simp
next
  case (Cons f fs)
  show ?case
    by (simp add: Let_def case_prod_beta Cons.IH map_upt_Suc del: upt_Suc)
qed

text \<open>The order in which the promises settle permutes the warnings, no more.\<close>

lemma mset_concat_sort_key:
  "mset (concat (map g (sort_key k xs))) = mset (concat (map g xs))"
proof -
  have "mset (concat (map g ys)) = sum_mset (image_mset (mset \<circ> g) (mset ys))" for ys
    by (induction ys) simp_all
  then show ?thesis by simp
qed

lemma settle_delete_case:
  "settle_delete (file, t, r) =
     (case r of
        Inl e \<Rightarrow> [LogWarn (''Bytescale delete failed for '' @ fileKey file @ '': '' @ message e)]
      | Inr _ \<Rightarrow> [])"
  by (cases r) simp_all

text \<open>
  Claim C1. A single request is treated as the array holding it. For every array of
  requests and every remote client, whichever calls it fails and whenever they settle,
  \<^verbatim>\<open>delete\<close> resolves; it issues one \<^verbatim>\<open>deleteFile\<close> call for each entry, in the
  order of the array, with the configured account and the entry's file key, whether or
  not other entries fail; and the lines it logs are, in some order, one warning for each
  entry whose call failed, naming its file key and the failure's message, and nothing
  else. This covers the batches where every call fails and where none does.
\<close>

theorem delete_best_effort:
  "delete sdk this (OneFile file) w = delete sdk this (FileArray [file]) w
   \<and> fst (delete sdk this (FileArray fs) w) = Inr ()
   \<and> calls (snd (delete sdk this (FileArray fs) w)) =
       calls w @ map (\<lambda>f. DeleteFileCall \<lparr>fp_accountId = accountId (this_options this),
                                           fp_filePath = fileKey f\<rparr>) fs
   \<and> (\<exists>ws. logs (snd (delete sdk this (FileArray fs) w)) = logs w @ ws
          \<and> mset ws = mset (concat (map (\<lambda>i.
               case FileApi_deleteFile sdk
                      (calls w @ map (\<lambda>f. DeleteFileCall
                                       \<lparr>fp_accountId = accountId (this_options this),
                                        fp_filePath = fileKey f\<rparr>) (take i fs))
                      \<lparr>fp_accountId = accountId (this_options this),
                       fp_filePath = fileKey (fs ! i)\<rparr> of
                 Inl e \<Rightarrow> [LogWarn (''Bytescale delete failed for '' @ fileKey (fs ! i)
                                     @ '': '' @ message e)]
               | Inr _ \<Rightarrow> []) [0..<length fs])))"
proof -
  have one: "delete sdk this (OneFile file) w = delete sdk this (FileArray [file]) w"
    by (simp add: delete_def)
  have res: "fst (delete sdk this (FileArray fs) w) = Inr ()"
    by (simp add: delete_def Let_def case_prod_beta)
  have cs: "calls (snd (delete sdk this (FileArray fs) w)) =
       calls w @ map (\<lambda>f. DeleteFileCall \<lparr>fp_accountId = accountId (this_options this),
                                           fp_filePath = fileKey f\<rparr>) fs"
    by (simp add: delete_def Let_def case_prod_beta issue_deletes_calls)
  have lg: "logs (snd (delete sdk this (FileArray fs) w)) =
       logs w @ concat (map settle_delete
         (sort_key (\<lambda>(file, t, r). t) (fst (issue_deletes sdk this fs (calls w)))))"
    by (simp add: delete_def Let_def case_prod_beta)
  have ms: "mset (concat (map settle_delete
         (sort_key (\<lambda>(file, t, r). t) (fst (issue_deletes sdk this fs (calls w)))))) =
       mset (concat (map (\<lambda>i.
               case FileApi_deleteFile sdk
                      (calls w @ map (\<lambda>f. DeleteFileCall
                                       \<lparr>fp_accountId = accountId (this_options this),
                                        fp_filePath = fileKey f\<rparr>) (take i fs))
                      \<lparr>fp_accountId = accountId (this_options this),
                       fp_filePath = fileKey (fs ! i)\<rparr> of
                 Inl e \<Rightarrow> [LogWarn (''Bytescale delete failed for '' @ fileKey (fs ! i)
                                     @ '': '' @ message e)]
               | Inr _ \<Rightarrow> []) [0..<length fs]))"
    unfolding mset_concat_sort_key issue_deletes_pending
    by (simp add: comp_def settle_delete_case)
  from one res cs lg ms show ?thesis by blast
qed

text \<open>
  A run: of four entries the second and the fourth fail, and the fourth settles first.
\<close>

theorem delete_best_effort_witness:
  "delete mock_sdk mock_service
     (FileArray [\<lparr>fileKey = ''/media/old/c.png''\<rparr>, \<lparr>fileKey = ''/tmp/x''\<rparr>,
                 \<lparr>fileKey = ''/media/a.png''\<rparr>, \<lparr>fileKey = ''/b''\<rparr>]) new_world =
   (Inr (),
    new_world\<lparr>calls :=
        [DeleteFileCall \<lparr>fp_accountId = Some ''acct'', fp_filePath = ''/media/old/c.png''\<rparr>,
         DeleteFileCall \<lparr>fp_accountId = Some ''acct'', fp_filePath = ''/tmp/x''\<rparr>,
         DeleteFileCall \<lparr>fp_accountId = Some ''acct'', fp_filePath = ''/media/a.png''\<rparr>,
         DeleteFileCall \<lparr>fp_accountId = Some ''acct'', fp_filePath = ''/b''\<rparr>],
      logs := [LogWarn ''Bytescale delete failed for /b: not found'',
               LogWarn ''Bytescale delete failed for /tmp/x: not found'']\<rparr>)
   \<and> delete mock_sdk mock_service (OneFile \<lparr>fileKey = ''/b''\<rparr>) new_world =
   (Inr (),
    new_world\<lparr>calls := [DeleteFileCall \<lparr>fp_accountId = Some ''acct'', fp_filePath = ''/b''\<rparr>],
      logs := [LogWarn ''Bytescale delete failed for /b: not found'']\<rparr>)"
  using delete_best_effort [of mock_sdk mock_service "\<lparr>fileKey = ''/b''\<rparr>" new_world
      "[\<lparr>fileKey = ''/media/old/c.png''\<rparr>, \<lparr>fileKey = ''/tmp/x''\<rparr>,
        \<lparr>fileKey = ''/media/a.png''\<rparr>, \<lparr>fileKey = ''/b''\<rparr>]"]
  by (simp add: delete_def mock_defs startsWith_def Let_def)

text \<open>
  Claim C10. \<^verbatim>\<open>delete\<close> of the empty array resolves and leaves the world as it
  was: no remote call is issued and nothing is logged.
\<close>

theorem delete_empty_array: "delete sdk this (FileArray []) w = (Inr (), w)"
  by (simp add: delete_def)

section \<open>Remote errors\<close>

text \<open>
  Claim C6. When the remote client fails with an error \<open>e\<close> during \<^verbatim>\<open>upload\<close>,
  \<^verbatim>\<open>getDownloadStream\<close>, \<^verbatim>\<open>getAsBuffer\<close> or \<^verbatim>\<open>getPresignedDownloadUrl\<close>, the
  operation adds exactly one error line to the log, built from the failure's message,
  and throws \<open>e\<close> itself: no remote error is swallowed. For \<^verbatim>\<open>getAsBuffer\<close> the
  error is the one the download rejects with or, after a download that succeeded, the
  one \<^verbatim>\<open>response.raw.buffer()\<close> rejects with.
\<close>

theorem remote_errors_logged_and_rethrown:
  "(UploadManager_upload sdk (calls w)
      \<lparr>data = content file, mime = mimeType file, originalFileName = filename file,
       folderPath = getUploadPath this\<rparr> = Inl e
     \<longrightarrow> fst (upload sdk this file w) = Inl e
         \<and> logs (snd (upload sdk this file w)) =
             logs w @ [LogError (''Bytescale upload failed for '' @ filename file @ '': ''
                                 @ message e)])
   \<and> (FileApi_downloadFile sdk (calls w)
        \<lparr>fp_accountId = accountId (this_options this), fp_filePath = fileKey fileData\<rparr> = Inl e
     \<longrightarrow> fst (getDownloadStream sdk this fileData w) = Inl e
         \<and> logs (snd (getDownloadStream sdk this fileData w)) =
             logs w @ [LogError (''Bytescale download stream failed: '' @ message e)]
         \<and> fst (getAsBuffer sdk this fileData w) = Inl e
         \<and> logs (snd (getAsBuffer sdk this fileData w)) =
             logs w @ [LogError (''Bytescale buffer download failed: '' @ message e)])
   \<and> (FileApi_downloadFile sdk (calls w)
        \<lparr>fp_accountId = accountId (this_options this), fp_filePath = fileKey fileData\<rparr> =
          Inr response
       \<and> buffer (raw response) = Inl e
     \<longrightarrow> fst (getAsBuffer sdk this fileData w) = Inl e
         \<and> logs (snd (getAsBuffer sdk this fileData w)) =
             logs w @ [LogError (''Bytescale buffer download failed: '' @ message e)])
   \<and> (UrlBuilder_url sdk
        \<lparr>fp_accountId = accountId (this_options this), fp_filePath = fileKey fileData\<rparr> = Inl e
     \<longrightarrow> fst (getPresignedDownloadUrl sdk this fileData w) = Inl e
         \<and> logs (snd (getPresignedDownloadUrl sdk this fileData w)) =
             logs w @ [LogError (''Bytescale URL gen failed: '' @ message e)])"
  by (simp add: upload_def getDownloadStream_def getAsBuffer_def getPresignedDownloadUrl_def
                Let_def)

theorem remote_errors_logged_and_rethrown_witness:
  "upload failing_sdk mock_service
     \<lparr>filename = ''a.txt'', mimeType = ''text/plain'', content = StringData ''hello''\<rparr>
     new_world =
     (Inl mock_failure,
      new_world\<lparr>calls := [UploadCall \<lparr>data = StringData ''hello'', mime = ''text/plain'',
                                        originalFileName = ''a.txt'',
                                        folderPath = ''/media''\<rparr>],
                logs := [LogError ''Bytescale upload failed for a.txt: quota exceeded'']\<rparr>)
   \<and> getDownloadStream failing_sdk mock_service \<lparr>fileKey = ''/media/a.txt''\<rparr> new_world =
     (Inl mock_failure,
      new_world\<lparr>calls := [DownloadFileCall \<lparr>fp_accountId = Some ''acct'',
                                              fp_filePath = ''/media/a.txt''\<rparr>],
                logs := [LogError ''Bytescale download stream failed: quota exceeded'']\<rparr>)
   \<and> getAsBuffer failing_sdk mock_service \<lparr>fileKey = ''/media/a.txt''\<rparr> new_world =
     (Inl mock_failure,
      new_world\<lparr>calls := [DownloadFileCall \<lparr>fp_accountId = Some ''acct'',
                                              fp_filePath = ''/media/a.txt''\<rparr>],
                logs := [LogError ''Bytescale buffer download failed: quota exceeded'']\<rparr>)
   \<and> buffer \<lparr>body = \<lparr>chunks = [[1, 2]], failure = Some mock_failure\<rparr>,
              response_url = ''https://upcdn.io/acct/raw/media/a.txt''\<rparr> =
     Inl \<lparr>name = ''FetchError'',
          message = ''Invalid response body while trying to fetch https://upcdn.io/acct/raw/media/a.txt: quota exceeded''\<rparr>
   \<and> getAsBuffer broken_body_sdk mock_service \<lparr>fileKey = ''/media/a.txt''\<rparr> new_world =
     (Inl \<lparr>name = ''FetchError'',
           message = ''Invalid response body while trying to fetch https://upcdn.io/acct/raw/media/a.txt: quota exceeded''\<rparr>,
      new_world\<lparr>calls := [DownloadFileCall \<lparr>fp_accountId = Some ''acct'',
                                              fp_filePath = ''/media/a.txt''\<rparr>],
                logs := [LogError ''Bytescale buffer download failed: Invalid response body while trying to fetch https://upcdn.io/acct/raw/media/a.txt: quota exceeded'']\<rparr>)
   \<and> getPresignedDownloadUrl failing_sdk mock_service \<lparr>fileKey = ''/media/a.txt''\<rparr>
       new_world =
     (Inl mock_failure,
      new_world\<lparr>logs := [LogError ''Bytescale URL gen failed: quota exceeded'']\<rparr>)"
  using remote_errors_logged_and_rethrown
          [of failing_sdk new_world
              "\<lparr>filename = ''a.txt'', mimeType = ''text/plain'', content = StringData ''hello''\<rparr>"
              mock_service mock_failure "\<lparr>fileKey = ''/media/a.txt''\<rparr>"]
        remote_errors_logged_and_rethrown
          [of broken_body_sdk new_world
              "\<lparr>filename = ''a.txt'', mimeType = ''text/plain'', content = StringData ''hello''\<rparr>"
              mock_service
              "\<lparr>name = ''FetchError'',
                message = ''Invalid response body while trying to fetch https://upcdn.io/acct/raw/media/a.txt: quota exceeded''\<rparr>"
              "\<lparr>fileKey = ''/media/a.txt''\<rparr>"
              "\<lparr>raw = \<lparr>body = \<lparr>chunks = [[1, 2]], failure = Some mock_failure\<rparr>,
                        response_url = ''https://upcdn.io/acct/raw/media/a.txt''\<rparr>\<rparr>"]
  by (simp add: upload_def getDownloadStream_def getAsBuffer_def getPresignedDownloadUrl_def
                buffer_def Let_def getUploadPath_def js_or_def startsWith_def endsWith_def
                mock_defs)

section \<open>Public URL\<close>

text \<open>
  Claim C7. The outcome of \<^verbatim>\<open>getPresignedDownloadUrl\<close> is what \<^verbatim>\<open>UrlBuilder.url\<close>
  makes of the configured account and the request's file key. Two calls that agree on
  these agree on the outcome, whatever else differs: the other options, the other
  fields of the request, the remote operations, the world. The call issues no remote
  call.
\<close>

theorem getPresignedDownloadUrl_pure:
  assumes "accountId (this_options this1) = accountId (this_options this2)"
    and "fileKey fileData1 = fileKey fileData2"
    and "UrlBuilder_url sdk1 = UrlBuilder_url sdk2"
  shows "fst (getPresignedDownloadUrl sdk1 this1 fileData1 w1) =
           fst (getPresignedDownloadUrl sdk2 this2 fileData2 w2)
         \<and> fst (getPresignedDownloadUrl sdk1 this1 fileData1 w1) =
             UrlBuilder_url sdk1 \<lparr>fp_accountId = accountId (this_options this1),
                                  fp_filePath = fileKey fileData1\<rparr>
         \<and> calls (snd (getPresignedDownloadUrl sdk1 this1 fileData1 w1)) = calls w1"
  using assms by (simp add: getPresignedDownloadUrl_def split: sum.splits)

theorem getPresignedDownloadUrl_pure_witness:
  "getPresignedDownloadUrl mock_sdk mock_service \<lparr>fileKey = ''/media/a.txt''\<rparr> new_world =
     (Inr ''https://upcdn.io/acct/raw/media/a.txt'', new_world)
   \<and> fst (getPresignedDownloadUrl broken_body_sdk
            \<lparr>this_options = \<lparr>apiKey = Some ''other'', accountId = Some ''acct'', prefix = None\<rparr>,
             this_uploadManager = UploadManager (Some ''other''),
             this_fileApi = FileApi (Some ''other'')\<rparr>
            \<lparr>fileKey = ''/media/a.txt'', \<dots> = ''private''\<rparr>
            (new_world\<lparr>logs := [LogWarn ''earlier'']\<rparr>)) =
     Inr ''https://upcdn.io/acct/raw/media/a.txt''"
proof -
  have same_account: "accountId (this_options mock_service) =
      accountId (this_options
        \<lparr>this_options = \<lparr>apiKey = Some ''other'', accountId = Some ''acct'', prefix = None\<rparr>,
         this_uploadManager = UploadManager (Some ''other''),
         this_fileApi = FileApi (Some ''other'')\<rparr>)"
    by (simp add: mock_defs)
  have same_key: "fileKey \<lparr>fileKey = ''/media/a.txt''\<rparr> =
      fileKey \<lparr>fileKey = ''/media/a.txt'', \<dots> = ''private''\<rparr>"
    by simp
  have same_rule: "UrlBuilder_url mock_sdk = UrlBuilder_url broken_body_sdk"
    by (simp add: mock_defs)
  show ?thesis
    using getPresignedDownloadUrl_pure
            [OF same_account same_key same_rule,
             of new_world "new_world\<lparr>logs := [LogWarn ''earlier'']\<rparr>"]
    by (simp add: getPresignedDownloadUrl_def js_or_def mock_defs)
qed

section \<open>Download\<close>

text \<open>
  Claim C8. On the same remote client and in the same world, \<^verbatim>\<open>getAsBuffer\<close> and
  \<^verbatim>\<open>getDownloadStream\<close> each issue exactly one remote download, of the same file of
  the same account, and when both return, the bytes of the buffer are the chunks of
  the stream concatenated.
\<close>

theorem download_buffer_equals_stream:
  "calls (snd (getAsBuffer sdk this fileData w)) =
     calls w @ [DownloadFileCall \<lparr>fp_accountId = accountId (this_options this),
                                  fp_filePath = fileKey fileData\<rparr>]
   \<and> calls (snd (getDownloadStream sdk this fileData w)) =
     calls w @ [DownloadFileCall \<lparr>fp_accountId = accountId (this_options this),
                                  fp_filePath = fileKey fileData\<rparr>]
   \<and> (\<forall>b s. fst (getAsBuffer sdk this fileData w) = Inr b
            \<and> fst (getDownloadStream sdk this fileData w) = Inr s
          \<longrightarrow> b = concat (chunks s))"
  by (auto simp: getAsBuffer_def getDownloadStream_def buffer_def Let_def
           split: sum.splits option.splits)

theorem download_buffer_equals_stream_witness:
  "getAsBuffer mock_sdk mock_service \<lparr>fileKey = ''/media/a.txt''\<rparr> new_world =
     (Inr [1, 2, 3],
      new_world\<lparr>calls := [DownloadFileCall \<lparr>fp_accountId = Some ''acct'',
                                              fp_filePath = ''/media/a.txt''\<rparr>]\<rparr>)
   \<and> getDownloadStream mock_sdk mock_service \<lparr>fileKey = ''/media/a.txt''\<rparr> new_world =
     (Inr \<lparr>chunks = [[1, 2], [3]], failure = None\<rparr>,
      new_world\<lparr>calls := [DownloadFileCall \<lparr>fp_accountId = Some ''acct'',
                                              fp_filePath = ''/media/a.txt''\<rparr>]\<rparr>)
   \<and> [1, 2, 3] = concat (chunks \<lparr>chunks = [[1, 2], [3 :: byte]], failure = None\<rparr>)"
  using download_buffer_equals_stream
          [of mock_sdk mock_service "\<lparr>fileKey = ''/media/a.txt''\<rparr>" new_world]
  by (simp add: getAsBuffer_def getDownloadStream_def buffer_def Let_def mock_defs)

end
